theory Spec2Isabelle
  imports Main "HOL-Library.Word"
begin

unbundle bit_operations_syntax

section \<open>RTP packet codec (rtp\_packet.py)\<close>

text \<open>
  A Python \<^verbatim>\<open>bytes\<close> object is a list of 8-bit words; Python integers are unbounded and
  are modelled by \<^typ>\<open>int\<close>. Exceptions are values: a function that may raise returns
  a sum whose left injection carries the exception.
\<close>

type_synonym byte = "8 word"

text \<open>
  \<^verbatim>\<open>StructError\<close> is \<^verbatim>\<open>struct.error\<close>. \<^verbatim>\<open>ExternalError\<close> stands for an exception raised by a
  collaborator whose code is not part of the sources modelled here (the \<^verbatim>\<open>VideoStream\<close> class,
  the socket library).
\<close>

datatype error = ValueError string | StructError | IndexError | KeyError | ExternalError

subsection \<open>\<^verbatim>\<open>struct.pack\<close> and \<^verbatim>\<open>struct.unpack\<close> with format \<^verbatim>\<open>!BBHII\<close>\<close>

text \<open>
  The format packs five unsigned integers of 1, 1, 2, 4 and 4 bytes in network (big-endian)
  byte order, without padding. \<^verbatim>\<open>struct.pack\<close> raises \<^verbatim>\<open>struct.error\<close> when an argument does
  not fit its field; \<^verbatim>\<open>struct.unpack\<close> raises it when the buffer is not exactly 12 bytes long.
\<close>

fun to_bytes_be :: "nat \<Rightarrow> int \<Rightarrow> byte list" where
  "to_bytes_be 0 x = []"
| "to_bytes_be (Suc n) x = to_bytes_be n (x div 256) @ [word_of_int x]"

definition from_bytes_be :: "byte list \<Rightarrow> int" where
  "from_bytes_be bs = foldl (\<lambda>a b. a * 256 + uint b) 0 bs"

definition pack_uint :: "nat \<Rightarrow> int \<Rightarrow> error + byte list" where
  "pack_uint n x =
     (if 0 \<le> x \<and> x < 256 ^ n then Inr (to_bytes_be n x) else Inl StructError)"

definition struct_pack_BBHII :: "int \<Rightarrow> int \<Rightarrow> int \<Rightarrow> int \<Rightarrow> int \<Rightarrow> error + byte list" where
  "struct_pack_BBHII a b c d e =
     (case pack_uint 1 a of Inl err \<Rightarrow> Inl err | Inr ba \<Rightarrow>
      case pack_uint 1 b of Inl err \<Rightarrow> Inl err | Inr bb \<Rightarrow>
      case pack_uint 2 c of Inl err \<Rightarrow> Inl err | Inr bc \<Rightarrow>
      case pack_uint 4 d of Inl err \<Rightarrow> Inl err | Inr bd \<Rightarrow>
      case pack_uint 4 e of Inl err \<Rightarrow> Inl err | Inr be \<Rightarrow>
        Inr (ba @ bb @ bc @ bd @ be))"

definition struct_unpack_BBHII :: "byte list \<Rightarrow> error + (int \<times> int \<times> int \<times> int \<times> int)" where
  "struct_unpack_BBHII bs =
     (if length bs \<noteq> 12 then Inl StructError
      else Inr (from_bytes_be (take 1 bs),
                from_bytes_be (take 1 (drop 1 bs)),
                from_bytes_be (take 2 (drop 2 bs)),
                from_bytes_be (take 4 (drop 4 bs)),
                from_bytes_be (take 4 (drop 8 bs))))"

subsection \<open>class RTPPacket\<close>

definition HEADER_SIZE :: nat where
  "HEADER_SIZE = 12"

record RTPPacket =
  version :: int
  padding :: int
  extension :: int
  cc :: int
  marker :: int
  pt :: int
  seq_num :: int
  timestamp :: int
  ssrc :: int
  payload :: "byte list"

text \<open>\<^verbatim>\<open>RTPPacket.encode\<close>: the two bit-packed bytes, then \<^verbatim>\<open>struct.pack\<close>, then the payload.\<close>

definition encode :: "RTPPacket \<Rightarrow> error + byte list" where
  "encode self =
     (let byte1 = push_bit 6 (version self) OR push_bit 5 (padding self)
                  OR push_bit 4 (extension self) OR cc self;
          byte2 = push_bit 7 (marker self) OR pt self
      in case struct_pack_BBHII byte1 byte2 (seq_num self) (timestamp self) (ssrc self) of
           Inl err \<Rightarrow> Inl err
         | Inr header \<Rightarrow> Inr (header @ payload self))"

text \<open>
  \<^verbatim>\<open>RTPPacket.decode\<close> (instance method) assigns the fields of \<^verbatim>\<open>self\<close> and returns nothing.
  The model returns the raised exception, if any, together with the object as the call
  leaves it.
\<close>

definition decode :: "RTPPacket \<Rightarrow> byte list \<Rightarrow> error option \<times> RTPPacket" where
  "decode self packet_data =
     (if length packet_data < HEADER_SIZE
      then (Some (ValueError ''Packet too short for RTP header''), self)
      else case struct_unpack_BBHII (take HEADER_SIZE packet_data) of
             Inl err \<Rightarrow> (Some err, self)
           | Inr (byte1, byte2, sn, ts, ss) \<Rightarrow>
               (None, self\<lparr>version := drop_bit 6 byte1 AND 3,
                           padding := drop_bit 5 byte1 AND 1,
                           extension := drop_bit 4 byte1 AND 1,
                           cc := byte1 AND 15,
                           marker := drop_bit 7 byte2 AND 1,
                           pt := byte2 AND 127,
                           seq_num := sn,
                           timestamp := ts,
                           ssrc := ss,
                           payload := drop HEADER_SIZE packet_data\<rparr>))"

text \<open>\<^verbatim>\<open>RTPPacket.decode_packet\<close> (class method) builds a new packet from the bytes.\<close>

definition decode_packet :: "byte list \<Rightarrow> error + RTPPacket" where
  "decode_packet packet_data =
     (if length packet_data < HEADER_SIZE
      then Inl (ValueError ''Packet too short for RTP header'')
      else case struct_unpack_BBHII (take HEADER_SIZE packet_data) of
             Inl err \<Rightarrow> Inl err
           | Inr (byte1, byte2, sn, ts, ss) \<Rightarrow>
               Inr \<lparr>version = drop_bit 6 byte1 AND 3,
                    padding = drop_bit 5 byte1 AND 1,
                    extension = drop_bit 4 byte1 AND 1,
                    cc = byte1 AND 15,
                    marker = drop_bit 7 byte2 AND 1,
                    pt = byte2 AND 127,
                    seq_num = sn,
                    timestamp = ts,
                    ssrc = ss,
                    payload = drop HEADER_SIZE packet_data\<rparr>)"

text \<open>
  The field ranges of the header layout: V(2) P(1) X(1) CC(4), M(1) PT(7), a 16-bit
  sequence number and 32-bit timestamp and SSRC.
\<close>

definition fields_in_range :: "RTPPacket \<Rightarrow> bool" where
  "fields_in_range p \<longleftrightarrow>
     0 \<le> version p \<and> version p < 4 \<and>
     0 \<le> padding p \<and> padding p < 2 \<and>
     0 \<le> extension p \<and> extension p < 2 \<and>
     0 \<le> cc p \<and> cc p < 16 \<and>
     0 \<le> marker p \<and> marker p < 2 \<and>
     0 \<le> pt p \<and> pt p < 128 \<and>
     0 \<le> seq_num p \<and> seq_num p < 65536 \<and>
     0 \<le> timestamp p \<and> timestamp p < 4294967296 \<and>
     0 \<le> ssrc p \<and> ssrc p < 4294967296"

text \<open>A concrete in-range packet, used to instantiate the theorems below.\<close>

definition pkt0 :: RTPPacket where
  "pkt0 = \<lparr>version = 2, padding = 0, extension = 0, cc = 0, marker = 1, pt = 26,
           seq_num = 65535, timestamp = 4294967295, ssrc = 305419896,
           payload = [255, 216, 0]\<rparr>"

definition bytes0 :: "byte list" where
  "bytes0 = [128, 154, 255, 255, 255, 255, 255, 255, 18, 52, 86, 120, 255, 216, 0]"

section \<open>The packetizer (class RTPVideoStream)\<close>

record RTPVideoStream =
  ssrc_strm :: int
  seq_num_strm :: int
  timestamp_base :: int

definition RTPVideoStream_init :: "int option \<Rightarrow> int \<Rightarrow> int \<Rightarrow> RTPVideoStream" where
  "RTPVideoStream_init ssrc_arg time_s time_90k =
     \<lparr>ssrc_strm = (case ssrc_arg of None \<Rightarrow> time_s | Some v \<Rightarrow> if v = 0 then time_s else v),
      seq_num_strm = 0,
      timestamp_base = time_90k\<rparr>"

definition create_packet ::
  "RTPVideoStream \<Rightarrow> byte list \<Rightarrow> bool \<Rightarrow> int \<Rightarrow> RTPPacket \<times> RTPVideoStream" where
  "create_packet self frame_data is_last_fragment time_90k =
     (let ts = timestamp_base self + time_90k;
          packet = \<lparr>version = 2, padding = 0, extension = 0, cc = 0,
                    marker = (if is_last_fragment then 1 else 0), pt = 26,
                    seq_num = seq_num_strm self, timestamp = ts, ssrc = ssrc_strm self,
                    payload = frame_data\<rparr>
      in (packet, self\<lparr>seq_num_strm := (seq_num_strm self + 1) mod 65536\<rparr>))"

fun create_packets ::
  "RTPVideoStream \<Rightarrow> (byte list \<times> bool \<times> int) list \<Rightarrow> RTPPacket list \<times> RTPVideoStream" where
  "create_packets self [] = ([], self)"
| "create_packets self ((frame_data, is_last_fragment, time_90k) # calls) =
     (let (packet, self1) = create_packet self frame_data is_last_fragment time_90k;
          (packets, self2) = create_packets self1 calls
      in (packet # packets, self2))"

text \<open>Three calls of \<^verbatim>\<open>create_packet\<close>, to instantiate the theorem on sequence numbers.\<close>

definition calls0 :: "(byte list \<times> bool \<times> int) list" where
  "calls0 = [([255, 216], True, 5), ([3], True, 6), ([], False, 7)]"

section \<open>Python string operations used by the server\<close>

text \<open>
  A Python \<^verbatim>\<open>str\<close> is modelled by \<^typ>\<open>string\<close>; a character stands for a code point below
  256 (a request is text received from the control connection).
\<close>

definition LF :: string where
  "LF = [CHR 0x0A]"

definition CRLF :: string where
  "CRLF = [CHR 0x0D, CHR 0x0A]"

text \<open>\<^verbatim>\<open>str.isspace\<close> on one character.\<close>

definition isspace :: "char \<Rightarrow> bool" where
  "isspace c \<longleftrightarrow> (of_char c :: nat) \<in> set [9, 10, 11, 12, 13, 28, 29, 30, 31, 32, 133, 160]"

definition strip :: "string \<Rightarrow> string" where
  "strip s = rev (dropWhile isspace (rev (dropWhile isspace s)))"

definition startswith :: "string \<Rightarrow> string \<Rightarrow> bool" where
  "startswith s p \<longleftrightarrow> take (length p) s = p"

definition endswith :: "string \<Rightarrow> string \<Rightarrow> bool" where
  "endswith s p \<longleftrightarrow> length p \<le> length s \<and> drop (length s - length p) s = p"

text \<open>\<^verbatim>\<open>sub in s\<close>.\<close>

fun contains :: "string \<Rightarrow> string \<Rightarrow> bool" where
  "contains sub [] \<longleftrightarrow> sub = []"
| "contains sub (c # cs) \<longleftrightarrow> startswith (c # cs) sub \<or> contains sub cs"

text \<open>
  \<^verbatim>\<open>s.split(sep)\<close> for a non-empty separator (every separator in the server is a non-empty
  literal): the pieces between the non-overlapping occurrences of \<open>sep\<close>, found from the
  left. The result is never empty.
\<close>

fun split_from :: "string \<Rightarrow> string \<Rightarrow> string \<Rightarrow> string list" where
  "split_from sep cur [] = [cur]"
| "split_from sep cur (c # cs) =
     (if startswith (c # cs) sep then cur # split_from sep [] (drop (length sep - 1) cs)
      else split_from sep (cur @ [c]) cs)"

definition split_sep :: "string \<Rightarrow> string \<Rightarrow> string list" where
  "split_sep s sep = split_from sep [] s"

text \<open>\<^verbatim>\<open>s.split()\<close>: the maximal runs of characters that are not whitespace.\<close>

fun split_ws_from :: "string \<Rightarrow> string \<Rightarrow> string list" where
  "split_ws_from cur [] = (if cur = [] then [] else [cur])"
| "split_ws_from cur (c # cs) =
     (if isspace c then (if cur = [] then split_ws_from [] cs else cur # split_ws_from [] cs)
      else split_ws_from (cur @ [c]) cs)"

definition split_ws :: "string \<Rightarrow> string list" where
  "split_ws s = split_ws_from [] s"

text \<open>\<^verbatim>\<open>str.lower\<close>: the letters A-Z and the upper-case letters of Latin-1.\<close>

definition lower_char :: "char \<Rightarrow> char" where
  "lower_char c =
     (let n = (of_char c :: nat)
      in if (65 \<le> n \<and> n \<le> 90) \<or> (192 \<le> n \<and> n \<le> 222 \<and> n \<noteq> 215) then char_of (n + 32) else c)"

definition lower :: "string \<Rightarrow> string" where
  "lower s = map lower_char s"

text \<open>
  \<^verbatim>\<open>int(s)\<close> in base 10, as CPython 3.11 and later convert a \<^verbatim>\<open>str\<close>. White space is
  dropped at both ends; this is not the white space of \<^verbatim>\<open>str.strip\<close>: the separators U+001C
  to U+001F are not part of it. Then comes an optional sign, then decimal digits, where
  single underscores may stand between digits. A text of more than 4300 digits (the default
  of \<^verbatim>\<open>sys.get_int_max_str_digits()\<close>) is refused once its run of digits and underscores has
  been scanned. Every failure raises \<^verbatim>\<open>ValueError\<close>.
\<close>

definition int_isspace :: "char \<Rightarrow> bool" where
  "int_isspace c \<longleftrightarrow> (of_char c :: nat) \<in> set [9, 10, 11, 12, 13, 32, 133, 160]"

definition default_max_str_digits :: nat where
  "default_max_str_digits = 4300"

definition isdigit :: "char \<Rightarrow> bool" where
  "isdigit c \<longleftrightarrow> 48 \<le> (of_char c :: nat) \<and> (of_char c :: nat) \<le> 57"

definition digit_value :: "char \<Rightarrow> int" where
  "digit_value c = int (of_char c) - 48"

definition py_int :: "string \<Rightarrow> error + int" where
  "py_int s =
     (let t = rev (dropWhile int_isspace (rev (dropWhile int_isspace s)));
          (sign, u) = (case t of
                         c # r \<Rightarrow> if c = CHR ''+'' then (1, r)
                                  else if c = CHR ''-'' then (- 1, r) else (1, t)
                       | [] \<Rightarrow> (1, t));
          run = takeWhile (\<lambda>c. isdigit c \<or> c = CHR ''_'') u;
          rest = dropWhile (\<lambda>c. isdigit c \<or> c = CHR ''_'') u;
          digits = filter isdigit run
      in if run \<noteq> [] \<and> (hd run = CHR ''_'' \<or> last run = CHR ''_'' \<or> contains ''__'' run)
         then Inl (ValueError ''invalid literal for int() with base 10'')
         else if default_max_str_digits < length digits
         then Inl (ValueError ''Exceeds the limit (4300 digits) for integer string conversion'')
         else if run = [] \<or> rest \<noteq> []
         then Inl (ValueError ''invalid literal for int() with base 10'')
         else Inr (sign * foldl (\<lambda>acc c. acc * 10 + digit_value c) 0 digits))"

text \<open>\<^verbatim>\<open>str(i)\<close>, as an f-string renders an integer, and the rendering of an optional one.\<close>

fun str_nat :: "nat \<Rightarrow> string" where
  "str_nat n = (if n < 10 then [char_of (48 + n)] else str_nat (n div 10) @ [char_of (48 + n mod 10)])"

declare str_nat.simps [simp del]

definition str_int :: "int \<Rightarrow> string" where
  "str_int i = (if i < 0 then CHR ''-'' # str_nat (nat (- i)) else str_nat (nat i))"

definition str_opt :: "int option \<Rightarrow> string" where
  "str_opt v = (case v of None \<Rightarrow> ''None'' | Some i \<Rightarrow> str_int i)"

text \<open>
  \<^verbatim>\<open>str(i)\<close> raises \<^verbatim>\<open>ValueError\<close> for an integer of more than 4300 digits. The integers a
  session holds are results of \<^verbatim>\<open>int\<close> and reads of the clock, which are below that limit;
  the one integer the server computes and renders is \<^verbatim>\<open>client_rtp_port + 1\<close>.
\<close>

definition str_exceeds :: "int \<Rightarrow> bool" where
  "str_exceeds i \<longleftrightarrow> 10 ^ default_max_str_digits \<le> \<bar>i\<bar>"

section \<open>The RTSP server (rtsp\_server.py)\<close>

subsection \<open>The world outside one request\<close>

text \<open>
  What a handler reads from outside while it serves one request: the file system
  (\<^verbatim>\<open>os.path.exists\<close>), whether the constructor and the \<^verbatim>\<open>close\<close> method of \<^verbatim>\<open>VideoStream\<close>
  return or raise (that class is not among the sources), whether \<^verbatim>\<open>socket.socket\<close> returns,
  the three clock reads of a SETUP (\<^verbatim>\<open>int(time.time())\<close> for the SSRC,
  \<^verbatim>\<open>int(time.time() * 90000)\<close> for the timestamp base, \<^verbatim>\<open>int(time.time())\<close> for the session
  id), and whether the streaming thread is alive.
\<close>

record env =
  path_exists :: "string \<Rightarrow> bool"
  video_opens :: "string \<Rightarrow> bool"
  video_closes :: bool
  socket_opens :: bool
  time_ssrc :: int
  time_base :: int
  time_session :: int
  thread_alive :: bool

subsection \<open>class ClientSession\<close>

datatype session_state = INIT | READY | PLAYING

datatype resource = Open | Closed

text \<open>
  The attributes the request handlers read and write. A video stream is the path it was
  opened on and whether it has been closed; \<open>streaming_thread\<close> tells whether a thread
  object has been stored.
\<close>

record ClientSession =
  seq_num_sess :: int
  session_id :: "int option"
  state :: session_state
  video_stream :: "(string \<times> resource) option"
  rtp_stream :: "RTPVideoStream option"
  rtp_socket :: "resource option"
  client_rtp_port :: "int option"
  server_rtp_port :: "int option"
  streaming_thread :: bool

definition ClientSession_init :: ClientSession where
  "ClientSession_init =
     \<lparr>seq_num_sess = 0, session_id = None, state = INIT, video_stream = None,
      rtp_stream = None, rtp_socket = None, client_rtp_port = None,
      server_rtp_port = None, streaming_thread = False\<rparr>"

definition cleanup :: "env \<Rightarrow> ClientSession \<Rightarrow> error option \<times> ClientSession" where
  "cleanup e self =
     (let s1 = self\<lparr>state := INIT\<rparr>;
          s2 = (case rtp_socket s1 of None \<Rightarrow> s1 | Some _ \<Rightarrow> s1\<lparr>rtp_socket := Some Closed\<rparr>)
      in case video_stream s2 of
           None \<Rightarrow> (None, s2)
         | Some (path, _) \<Rightarrow>
             if video_closes e then (None, s2\<lparr>video_stream := Some (path, Closed)\<rparr>)
             else (Some ExternalError, s2))"

subsection \<open>class RTSPServer\<close>

definition RTSP_VER :: string where
  "RTSP_VER = ''RTSP/1.0''"

definition OK :: int where
  "OK = 200"

definition FILE_NOT_FOUND :: int where
  "FILE_NOT_FOUND = 404"

definition CON_ERR :: int where
  "CON_ERR = 500"

definition status_text :: "int \<Rightarrow> string option" where
  "status_text code =
     (if code = OK then Some ''OK''
      else if code = FILE_NOT_FOUND then Some ''Not Found''
      else if code = CON_ERR then Some ''Internal Server Error''
      else None)"

definition generate_response :: "int \<Rightarrow> int \<Rightarrow> error + string" where
  "generate_response code cseq =
     (case status_text code of
        None \<Rightarrow> Inl KeyError
      | Some text \<Rightarrow>
          Inr (RTSP_VER @ '' '' @ str_int code @ '' '' @ text @ CRLF @
               ''CSeq: '' @ str_int cseq @ CRLF @ CRLF))"

text \<open>
  The reply that \<^verbatim>\<open>handle_play\<close>, \<^verbatim>\<open>handle_pause\<close> and \<^verbatim>\<open>handle_teardown\<close> each build with the
  same f-string, and the reply of a successful \<^verbatim>\<open>handle_setup\<close>.
\<close>

definition session_response :: "int \<Rightarrow> int option \<Rightarrow> string" where
  "session_response cseq sid =
     RTSP_VER @ '' '' @ str_int OK @ '' OK'' @ CRLF @
     ''CSeq: '' @ str_int cseq @ CRLF @
     ''Session: '' @ str_opt sid @ CRLF @ CRLF"

definition setup_response :: "int \<Rightarrow> int \<Rightarrow> int \<Rightarrow> int option \<Rightarrow> string" where
  "setup_response cseq client_port server_port sid =
     RTSP_VER @ '' '' @ str_int OK @ '' OK'' @ CRLF @
     ''CSeq: '' @ str_int cseq @ CRLF @
     ''Transport: RTP/UDP;client_port='' @ str_int client_port @ ''-'' @ str_int (client_port + 1) @
     '';server_port='' @ str_int server_port @ ''-'' @ str_int (server_port + 1) @ CRLF @
     ''Session: '' @ str_opt sid @ CRLF @ CRLF"

text \<open>
  The resource lookup of \<^verbatim>\<open>handle_setup\<close>: the file in the \<^verbatim>\<open>videos\<close> directory
  (\<^verbatim>\<open>os.path.join\<close> with the POSIX separator), else an \<^verbatim>\<open>.mp4\<close> file of that name in the
  working directory.
\<close>

definition find_video :: "env \<Rightarrow> string \<Rightarrow> string option" where
  "find_video e url =
     (let filename = last (split_sep url ''/'');
          video_path = ''videos/'' @ filename
      in if \<not> path_exists e video_path
         then (if path_exists e filename \<and> endswith (lower filename) ''.mp4''
               then Some filename else None)
         else Some video_path)"

text \<open>The loop of \<^verbatim>\<open>handle_setup\<close> that extracts the client RTP port; 25000 is the default.\<close>

fun client_port_of :: "string list \<Rightarrow> error + int" where
  "client_port_of [] = Inr 25000"
| "client_port_of (line # lines) =
     (if contains ''client_port='' line
      then (case split_sep line ''client_port='' of
              _ # after # _ \<Rightarrow>
                (case split_sep after ''-'' of
                   port_info # _ \<Rightarrow> py_int port_info
                 | [] \<Rightarrow> Inl IndexError)
            | _ \<Rightarrow> Inl IndexError)
      else client_port_of lines)"

text \<open>
  \<^verbatim>\<open>handle_setup\<close>. Every exception raised inside its \<^verbatim>\<open>try\<close> block is answered by a 500
  response; the attributes assigned before the exception stay assigned. The exceptions are
  those of the port conversion, of the \<^verbatim>\<open>VideoStream\<close> constructor, of \<^verbatim>\<open>socket.socket\<close> and
  of the f-string that renders \<^verbatim>\<open>client_rtp_port + 1\<close> into the response.
\<close>

definition handle_setup ::
  "env \<Rightarrow> string \<Rightarrow> string list \<Rightarrow> ClientSession \<Rightarrow> (error + string) \<times> ClientSession" where
  "handle_setup e url lines session =
     (case find_video e url of
        None \<Rightarrow> (generate_response FILE_NOT_FOUND (seq_num_sess session), session)
      | Some video_path \<Rightarrow>
          (case client_port_of lines of
             Inl err \<Rightarrow> (generate_response CON_ERR (seq_num_sess session), session)
           | Inr client_port \<Rightarrow>
               if \<not> video_opens e video_path
               then (generate_response CON_ERR (seq_num_sess session), session)
               else
                 let s1 = session\<lparr>video_stream := Some (video_path, Open),
                                  rtp_stream := Some (RTPVideoStream_init None (time_ssrc e) (time_base e)),
                                  client_rtp_port := Some client_port,
                                  server_rtp_port := Some 25000,
                                  session_id := Some (time_session e)\<rparr>
                 in if \<not> socket_opens e
                    then (generate_response CON_ERR (seq_num_sess s1), s1)
                    else
                      let s2 = s1\<lparr>rtp_socket := Some Open\<rparr>
                      in if str_exceeds (client_port + 1)
                         then (generate_response CON_ERR (seq_num_sess s2), s2)
                         else
                           let response = setup_response (seq_num_sess s2) client_port 25000
                                            (session_id s2)
                           in (Inr response, s2\<lparr>state := READY\<rparr>)))"

definition handle_play :: "env \<Rightarrow> ClientSession \<Rightarrow> (error + string) \<times> ClientSession" where
  "handle_play e session =
     (if state session \<noteq> READY \<and> state session \<noteq> PLAYING
      then (generate_response CON_ERR (seq_num_sess session), session)
      else
        let s1 = session\<lparr>state := PLAYING\<rparr>;
            s2 = (if \<not> streaming_thread s1 \<or> \<not> thread_alive e
                  then s1\<lparr>streaming_thread := True\<rparr> else s1)
        in (Inr (session_response (seq_num_sess s2) (session_id s2)), s2))"

definition handle_pause :: "ClientSession \<Rightarrow> (error + string) \<times> ClientSession" where
  "handle_pause session =
     (let s1 = session\<lparr>state := READY\<rparr>
      in (Inr (session_response (seq_num_sess s1) (session_id s1)), s1))"

definition handle_teardown :: "env \<Rightarrow> ClientSession \<Rightarrow> (error + string) \<times> ClientSession" where
  "handle_teardown e session =
     (let s1 = session\<lparr>state := INIT\<rparr>
      in case cleanup e s1 of
           (Some err, s2) \<Rightarrow> (Inl err, s2)
         | (None, s2) \<Rightarrow> (Inr (session_response (seq_num_sess s2) (session_id s2)), s2))"

text \<open>The loop of \<^verbatim>\<open>parse_rtsp_request\<close> that extracts the CSeq header; 0 is the default.\<close>

fun cseq_of :: "string list \<Rightarrow> error + int" where
  "cseq_of [] = Inr 0"
| "cseq_of (line # lines) =
     (if startswith line ''CSeq:''
      then (case split_sep line '':'' of
              _ # v # _ \<Rightarrow> py_int (strip v)
            | _ \<Rightarrow> Inl IndexError)
      else cseq_of lines)"

text \<open>
  \<^verbatim>\<open>parse_rtsp_request\<close>. An exception of the CSeq conversion leaves the function before
  the session is touched; \<^verbatim>\<open>handle_client\<close> then drops the connection without a response.
\<close>

definition parse_rtsp_request ::
  "env \<Rightarrow> string \<Rightarrow> ClientSession \<Rightarrow> (error + string) \<times> ClientSession" where
  "parse_rtsp_request e request session =
     (let lines = split_sep (strip request) LF
      in if lines = [] then (generate_response CON_ERR (seq_num_sess session), session)
         else
           let request_line = split_ws (hd lines)
           in if length request_line < 3
              then (generate_response CON_ERR (seq_num_sess session), session)
              else
                let method = request_line ! 0;
                    url = request_line ! 1
                in case cseq_of (tl lines) of
                     Inl err \<Rightarrow> (Inl err, session)
                   | Inr cseq \<Rightarrow>
                       let s1 = session\<lparr>seq_num_sess := cseq\<rparr>
                       in if method = ''SETUP'' then handle_setup e url lines s1
                          else if method = ''PLAY'' then handle_play e s1
                          else if method = ''PAUSE'' then handle_pause s1
                          else if method = ''TEARDOWN'' then handle_teardown e s1
                          else (generate_response CON_ERR cseq, s1))"

text \<open>Requests and an environment used to evaluate the server on concrete inputs.\<close>

definition env0 :: env where
  "env0 = \<lparr>path_exists = (\<lambda>p. p = ''videos/movie.mjpeg''), video_opens = (\<lambda>p. True),
           video_closes = True, socket_opens = True,
           time_ssrc = 1000, time_base = 90000000, time_session = 1000, thread_alive = False\<rparr>"

definition request :: "string \<Rightarrow> string list \<Rightarrow> string" where
  "request first_line headers = first_line @ CRLF @ concat (map (\<lambda>h. h @ CRLF) headers) @ CRLF"

definition env1 :: env where
  "env1 = env0\<lparr>time_session := 2000\<rparr>"

definition url0 :: string where
  "url0 = ''rtsp://localhost:8554/movie.mjpeg''"

definition setup_request :: "string list \<Rightarrow> string" where
  "setup_request headers = request (''SETUP '' @ url0 @ '' RTSP/1.0'') headers"

definition r_setup1 :: string where
  "r_setup1 = setup_request [''CSeq: 1'']"

definition r_setup2 :: string where
  "r_setup2 = setup_request [''CSeq: 2'']"


definition r_play5 :: string where
  "r_play5 = request (''PLAY '' @ url0 @ '' RTSP/1.0'') [''CSeq: 5'']"



definition r_cseq_x :: string where
  "r_cseq_x = request (''PLAY '' @ url0 @ '' RTSP/1.0'') [''CSeq: x'']"


definition env2 :: env where
  "env2 = env1\<lparr>socket_opens := False\<rparr>"

definition s_ready :: ClientSession where
  "s_ready = ClientSession_init\<lparr>seq_num_sess := 1,
     video_stream := Some (''videos/movie.mjpeg'', Open),
     rtp_stream := Some (RTPVideoStream_init None 1000 90000000),
     client_rtp_port := Some 25000, server_rtp_port := Some 25000,
     session_id := Some 1000, rtp_socket := Some Open, state := READY\<rparr>"

section \<open>Properties of the codec\<close>

lemma length_to_bytes_be: "length (to_bytes_be n x) = n"
  by (induction n arbitrary: x) auto

text \<open>
  C2. A buffer shorter than 12 bytes makes both decoders raise
  \<^verbatim>\<open>ValueError("Packet too short for RTP header")\<close>: the class method returns no packet, and
  the instance method leaves every field of the object it was called on as it was.
\<close>

theorem decode_short_raises:
  "length packet_data < 12 \<Longrightarrow>
     decode self packet_data = (Some (ValueError ''Packet too short for RTP header''), self) \<and>
     decode_packet packet_data = Inl (ValueError ''Packet too short for RTP header'')"
  by (simp add: decode_def decode_packet_def HEADER_SIZE_def)


theorem decode_short_raises_witness:
  "length ([128, 26, 0] :: byte list) < 12 \<and>
   decode pkt0 [128, 26, 0] = (Some (ValueError ''Packet too short for RTP header''), pkt0) \<and>
   decode_packet [128, 26, 0] = Inl (ValueError ''Packet too short for RTP header'')"
  using decode_short_raises [of "[128, 26, 0]" pkt0] by simp

subsection \<open>Round trip\<close>

lemma from_bytes_be_snoc: "from_bytes_be (bs @ [b]) = from_bytes_be bs * 256 + uint b"
  by (simp add: from_bytes_be_def)

lemma from_to_bytes_be:
  "0 \<le> x \<Longrightarrow> x < 256 ^ n \<Longrightarrow> from_bytes_be (to_bytes_be n x) = x"
proof (induction n arbitrary: x)
  case 0
  then show ?case by (simp add: from_bytes_be_def)
next
  case (Suc n)
  have "0 \<le> x div 256" using Suc.prems by simp
  moreover have "x div 256 < 256 ^ n" using Suc.prems by (simp add: div_less_iff_less_mult mult.commute)
  ultimately have "from_bytes_be (to_bytes_be n (x div 256)) = x div 256" by (rule Suc.IH)
  moreover have "uint (word_of_int x :: byte) = x mod 256"
    by (simp add: uint_word_of_int)
  ultimately show ?case by (simp add: from_bytes_be_snoc)
qed

lemma byte1_roundtrip:
  fixes v p x c :: int
  assumes "0 \<le> v" "v < 4" "0 \<le> p" "p < 2" "0 \<le> x" "x < 2" "0 \<le> c" "c < 16"
  defines "b \<equiv> push_bit 6 v OR push_bit 5 p OR push_bit 4 x OR c"
  shows "0 \<le> b \<and> b < 256 \<and> drop_bit 6 b AND 3 = v \<and> drop_bit 5 b AND 1 = p
         \<and> drop_bit 4 b AND 1 = x \<and> b AND 15 = c"
proof -
  have v: "v = 0 \<or> v = 1 \<or> v = 2 \<or> v = 3" using assms by arith
  have p: "p = 0 \<or> p = 1" using assms by arith
  have x: "x = 0 \<or> x = 1" using assms by arith
  have c: "c = 0 \<or> c = 1 \<or> c = 2 \<or> c = 3 \<or> c = 4 \<or> c = 5 \<or> c = 6 \<or> c = 7 \<or> c = 8 \<or> c = 9 \<or> c = 10 \<or> c = 11 \<or> c = 12 \<or> c = 13 \<or> c = 14 \<or> c = 15" using assms by arith
  show ?thesis unfolding b_def using v p x c by (elim disjE; simp)
qed

lemma byte2_roundtrip:
  fixes m t :: int
  assumes m0: "0 \<le> m" and m2: "m < 2" and t0: "0 \<le> t" and t128: "t < 128"
  shows "0 \<le> push_bit 7 m OR t \<and> push_bit 7 m OR t < 256 \<and>
         drop_bit 7 (push_bit 7 m OR t) AND 1 = m \<and> (push_bit 7 m OR t) AND 127 = t"
proof -
  define b where "b = push_bit 7 m OR t"
  have t7: "take_bit 7 t = t" using t0 t128 by (simp add: take_bit_int_eq_self)
  have "b = concat_bit 7 t m" by (simp add: b_def concat_bit_def t7 or.commute)
  then have b: "b = t + 128 * m" by (simp add: concat_bit_eq t7 push_bit_eq_mult)
  have m: "m = 0 \<or> m = 1" using m0 m2 by arith
  have d: "drop_bit 7 b = m" using t0 t128 by (simp add: b drop_bit_eq_div)
  have a: "b AND 127 = take_bit 7 b" by (simp add: take_bit_eq_mask mask_eq_exp_minus_1)
  have tb: "take_bit 7 b = t" using t0 t128 by (simp add: b take_bit_eq_mod)
  have "0 \<le> b \<and> b < 256 \<and> drop_bit 7 b AND 1 = m \<and> b AND 127 = t"
    using a d m tb t0 t128 by (auto simp: b)
  then show ?thesis by (simp add: b_def)
qed

lemma unpack_pack:
  assumes "0 \<le> a" "a < 256" "0 \<le> b" "b < 256" "0 \<le> c" "c < 65536"
    "0 \<le> d" "d < 4294967296" "0 \<le> e" "e < 4294967296"
  shows "struct_pack_BBHII a b c d e =
           Inr (to_bytes_be 1 a @ to_bytes_be 1 b @ to_bytes_be 2 c @ to_bytes_be 4 d @ to_bytes_be 4 e)"
    and "struct_unpack_BBHII
           (to_bytes_be 1 a @ to_bytes_be 1 b @ to_bytes_be 2 c @ to_bytes_be 4 d @ to_bytes_be 4 e)
         = Inr (a, b, c, d, e)"
proof -
  show "struct_pack_BBHII a b c d e =
           Inr (to_bytes_be 1 a @ to_bytes_be 1 b @ to_bytes_be 2 c @ to_bytes_be 4 d @ to_bytes_be 4 e)"
    using assms by (simp add: struct_pack_BBHII_def pack_uint_def)
  have A: "from_bytes_be (to_bytes_be (Suc 0) a) = a" using assms by (intro from_to_bytes_be) simp_all
  have B: "from_bytes_be (to_bytes_be (Suc 0) b) = b" using assms by (intro from_to_bytes_be) simp_all
  have C: "from_bytes_be (to_bytes_be 2 c) = c" using assms by (intro from_to_bytes_be) simp_all
  have D: "from_bytes_be (to_bytes_be 4 d) = d" using assms by (intro from_to_bytes_be) simp_all
  have E: "from_bytes_be (to_bytes_be 4 e) = e" using assms by (intro from_to_bytes_be) simp_all
  show "struct_unpack_BBHII
           (to_bytes_be 1 a @ to_bytes_be 1 b @ to_bytes_be 2 c @ to_bytes_be 4 d @ to_bytes_be 4 e)
         = Inr (a, b, c, d, e)"
    by (simp add: struct_unpack_BBHII_def length_to_bytes_be A B C D E del: to_bytes_be.simps)
qed

lemma struct_pack_length:
  "struct_pack_BBHII a b c d e = Inr h \<Longrightarrow> length h = 12"
  by (auto simp: struct_pack_BBHII_def pack_uint_def length_to_bytes_be split: sum.splits if_splits)

text \<open>
  C1. For in-range header fields and any payload, \<^verbatim>\<open>encode\<close> returns bytes, and decoding
  them (with the class method, or with the instance method on any object) gives back
  every header field and the payload.
\<close>

theorem encode_decode_roundtrip:
  assumes "fields_in_range p"
  shows "\<exists>bs. encode p = Inr bs \<and> decode_packet bs = Inr p \<and> decode self bs = (None, p)"
proof -
  define b1 where "b1 = push_bit 6 (version p) OR push_bit 5 (padding p) OR push_bit 4 (extension p) OR cc p"
  define b2 where "b2 = push_bit 7 (marker p) OR pt p"
  define h where "h = to_bytes_be 1 b1 @ to_bytes_be 1 b2 @ to_bytes_be 2 (seq_num p)
                       @ to_bytes_be 4 (timestamp p) @ to_bytes_be 4 (ssrc p)"
  have r1: "0 \<le> b1 \<and> b1 < 256 \<and> drop_bit 6 b1 AND 3 = version p \<and> drop_bit 5 b1 AND 1 = padding p
         \<and> drop_bit 4 b1 AND 1 = extension p \<and> b1 AND 15 = cc p"
    unfolding b1_def using assms by (intro byte1_roundtrip) (simp_all add: fields_in_range_def)
  have r2: "0 \<le> b2 \<and> b2 < 256 \<and> drop_bit 7 b2 AND 1 = marker p \<and> b2 AND 127 = pt p"
    unfolding b2_def using assms by (intro byte2_roundtrip) (simp_all add: fields_in_range_def)
  have rng: "0 \<le> seq_num p" "seq_num p < 65536" "0 \<le> timestamp p" "timestamp p < 4294967296"
    "0 \<le> ssrc p" "ssrc p < 4294967296"
    using assms by (simp_all add: fields_in_range_def)
  have pk: "struct_pack_BBHII b1 b2 (seq_num p) (timestamp p) (ssrc p) = Inr h"
    unfolding h_def using r1 r2 rng by (intro unpack_pack(1)) simp_all
  have up: "struct_unpack_BBHII h = Inr (b1, b2, seq_num p, timestamp p, ssrc p)"
    unfolding h_def using r1 r2 rng by (intro unpack_pack(2)) simp_all
  have len: "length h = 12" using pk by (rule struct_pack_length)
  have enc: "encode p = Inr (h @ payload p)"
    by (simp add: encode_def Let_def b1_def [symmetric] b2_def [symmetric] pk)
  have dp: "decode_packet (h @ payload p) = Inr p"
    using r1 r2 by (simp add: decode_packet_def HEADER_SIZE_def len up)
  have di: "decode self (h @ payload p) = (None, p)"
    using r1 r2 by (simp add: decode_def HEADER_SIZE_def len up)
  from enc dp di show ?thesis by blast
qed

theorem encode_decode_roundtrip_witness:
  "fields_in_range pkt0 \<and>
   (\<exists>bs. encode pkt0 = Inr bs \<and> decode_packet bs = Inr pkt0 \<and> decode pkt0 bs = (None, pkt0))"
  using encode_decode_roundtrip [of pkt0 pkt0] by (simp add: fields_in_range_def pkt0_def)

subsection \<open>Length of the encoding\<close>

lemma encode_in_range_returns: "fields_in_range p \<Longrightarrow> \<exists>bs. encode p = Inr bs"
proof -
  assume r: "fields_in_range p"
  have b1: "0 \<le> push_bit 6 (version p) OR push_bit 5 (padding p) OR push_bit 4 (extension p) OR cc p
      \<and> push_bit 6 (version p) OR push_bit 5 (padding p) OR push_bit 4 (extension p) OR cc p < 256"
    using byte1_roundtrip [of "version p" "padding p" "extension p" "cc p"] r
    by (simp add: fields_in_range_def)
  have b2: "0 \<le> push_bit 7 (marker p) OR pt p \<and> push_bit 7 (marker p) OR pt p < 256"
    using byte2_roundtrip [of "marker p" "pt p"] r by (simp add: fields_in_range_def)
  show ?thesis
    using b1 b2 r by (simp add: encode_def Let_def struct_pack_BBHII_def pack_uint_def fields_in_range_def)
qed

text \<open>
  C9 as stated fails: \<^verbatim>\<open>encode\<close> does not produce a header for every combination of field
  values. With \<^verbatim>\<open>version = 4\<close> the first header byte is 256 and \<^verbatim>\<open>struct.pack\<close> raises.
\<close>

theorem encode_version_4_raises:
  "encode \<lparr>version = 4, padding = 0, extension = 0, cc = 0, marker = 0, pt = 26,
           seq_num = 0, timestamp = 0, ssrc = 0, payload = []\<rparr> = Inl StructError"
  by (simp add: encode_def struct_pack_BBHII_def pack_uint_def)

lemma struct_pack_returns_iff:
  "(\<exists>h. struct_pack_BBHII a b c d e = Inr h) \<longleftrightarrow>
     0 \<le> a \<and> a < 256 \<and> 0 \<le> b \<and> b < 256 \<and> 0 \<le> c \<and> c < 65536 \<and>
     0 \<le> d \<and> d < 4294967296 \<and> 0 \<le> e \<and> e < 4294967296"
  by (auto simp: struct_pack_BBHII_def pack_uint_def)

lemma struct_pack_cases:
  "struct_pack_BBHII a b c d e = Inl StructError \<or> (\<exists>h. struct_pack_BBHII a b c d e = Inr h)"
  by (simp add: struct_pack_BBHII_def pack_uint_def)

lemma encode_returns_iff:
  "(\<exists>bs. encode p = Inr bs) \<longleftrightarrow>
   (\<exists>h. struct_pack_BBHII
          (push_bit 6 (version p) OR push_bit 5 (padding p) OR push_bit 4 (extension p) OR cc p)
          (push_bit 7 (marker p) OR pt p) (seq_num p) (timestamp p) (ssrc p) = Inr h)"
  by (auto simp: encode_def Let_def split: sum.splits)

lemma encode_cases: "encode p = Inl StructError \<or> (\<exists>bs. encode p = Inr bs)"
  using struct_pack_cases
    [of "push_bit 6 (version p) OR push_bit 5 (padding p) OR push_bit 4 (extension p) OR cc p"
        "push_bit 7 (marker p) OR pt p" "seq_num p" "timestamp p" "ssrc p"]
  by (auto simp: encode_def Let_def split: sum.splits)

text \<open>
  C9, amended. \<^verbatim>\<open>encode\<close> returns bytes exactly when each of the five values it hands to
  \<^verbatim>\<open>struct.pack\<close> fits its field: the two packed octets
  \<^verbatim>\<open>version << 6 | padding << 5 | extension << 4 | cc\<close> and \<^verbatim>\<open>marker << 7 | pt\<close> lie in 0..255,
  the sequence number in 0..65535, the timestamp and the SSRC in 0..4294967295. This holds
  for every combination of in-range header fields. Whenever \<^verbatim>\<open>encode\<close> returns bytes, they
  are a 12-byte header followed by the payload, so that the total length is 12 plus the
  payload length, for a payload of any length. In every other case \<^verbatim>\<open>encode\<close> raises
  \<^verbatim>\<open>struct.error\<close> and produces no bytes.
\<close>

theorem encode_length:
  "((\<exists>bs. encode p = Inr bs) \<longleftrightarrow>
      0 \<le> push_bit 6 (version p) OR push_bit 5 (padding p) OR push_bit 4 (extension p) OR cc p \<and>
      push_bit 6 (version p) OR push_bit 5 (padding p) OR push_bit 4 (extension p) OR cc p < 256 \<and>
      0 \<le> push_bit 7 (marker p) OR pt p \<and> push_bit 7 (marker p) OR pt p < 256 \<and>
      0 \<le> seq_num p \<and> seq_num p < 65536 \<and>
      0 \<le> timestamp p \<and> timestamp p < 4294967296 \<and>
      0 \<le> ssrc p \<and> ssrc p < 4294967296) \<and>
   (fields_in_range p \<longrightarrow> (\<exists>bs. encode p = Inr bs)) \<and>
   (\<forall>bs. encode p = Inr bs \<longrightarrow>
      length bs = 12 + length (payload p) \<and> drop 12 bs = payload p) \<and>
   (encode p = Inl StructError \<or> (\<exists>bs. encode p = Inr bs))"
proof (intro conjI impI allI)
  show "(\<exists>bs. encode p = Inr bs) \<longleftrightarrow>
      0 \<le> push_bit 6 (version p) OR push_bit 5 (padding p) OR push_bit 4 (extension p) OR cc p \<and>
      push_bit 6 (version p) OR push_bit 5 (padding p) OR push_bit 4 (extension p) OR cc p < 256 \<and>
      0 \<le> push_bit 7 (marker p) OR pt p \<and> push_bit 7 (marker p) OR pt p < 256 \<and>
      0 \<le> seq_num p \<and> seq_num p < 65536 \<and>
      0 \<le> timestamp p \<and> timestamp p < 4294967296 \<and>
      0 \<le> ssrc p \<and> ssrc p < 4294967296"
    unfolding encode_returns_iff by (rule struct_pack_returns_iff)
  show "encode p = Inl StructError \<or> (\<exists>bs. encode p = Inr bs)"
    by (rule encode_cases)
next
  assume "fields_in_range p"
  then show "\<exists>bs. encode p = Inr bs" by (rule encode_in_range_returns)
next
  fix bs assume "encode p = Inr bs"
  then obtain h where
    h: "struct_pack_BBHII
          (push_bit 6 (version p) OR push_bit 5 (padding p) OR push_bit 4 (extension p) OR cc p)
          (push_bit 7 (marker p) OR pt p) (seq_num p) (timestamp p) (ssrc p) = Inr h"
    and bs: "bs = h @ payload p"
    by (auto simp: encode_def Let_def split: sum.splits)
  have "length h = 12" using h by (rule struct_pack_length)
  then show "length bs = 12 + length (payload p)" "drop 12 bs = payload p"
    by (simp_all add: bs)
qed

theorem encode_length_witness:
  "fields_in_range pkt0 \<and> encode pkt0 = Inr bytes0 \<and>
   length bytes0 = 12 + length (payload pkt0) \<and> drop 12 bytes0 = payload pkt0 \<and>
   timestamp (pkt0\<lparr>timestamp := 4294967296\<rparr>) = 4294967296 \<and>
   encode (pkt0\<lparr>timestamp := 4294967296\<rparr>) = Inl StructError"
proof -
  have r: "fields_in_range pkt0" by (simp add: fields_in_range_def pkt0_def)
  have e: "encode pkt0 = Inr bytes0" by code_simp
  have t: "\<not> timestamp (pkt0\<lparr>timestamp := 4294967296\<rparr>) < 4294967296" by simp
  have a: "length bytes0 = 12 + length (payload pkt0) \<and> drop 12 bytes0 = payload pkt0"
    using encode_length [of pkt0] r e by blast
  have b: "encode (pkt0\<lparr>timestamp := 4294967296\<rparr>) = Inl StructError"
    using encode_length [of "pkt0\<lparr>timestamp := 4294967296\<rparr>"] t by blast
  from r e a b show ?thesis by simp
qed

subsection \<open>The two decoders\<close>

text \<open>
  C10. On a buffer of at least 12 bytes the class method returns a packet, and the instance
  method, called on any object, leaves that object with exactly the fields of this packet;
  on a shorter buffer both raise the same \<^verbatim>\<open>ValueError\<close>.
\<close>

theorem decoders_agree:
  "(12 \<le> length d \<longrightarrow> (\<exists>p. decode_packet d = Inr p \<and> decode self d = (None, p))) \<and>
   (length d < 12 \<longrightarrow>
      decode_packet d = Inl (ValueError ''Packet too short for RTP header'') \<and>
      decode self d = (Some (ValueError ''Packet too short for RTP header''), self))"
  by (auto simp: decode_def decode_packet_def HEADER_SIZE_def struct_unpack_BBHII_def)

theorem decoders_agree_witness:
  "12 \<le> length bytes0 \<and>
   (\<exists>p. decode_packet bytes0 = Inr p \<and> decode pkt0 bytes0 = (None, p)) \<and>
   length ([1, 2] :: byte list) < 12 \<and>
   decode_packet [1, 2] = Inl (ValueError ''Packet too short for RTP header'') \<and>
   decode pkt0 [1, 2] = (Some (ValueError ''Packet too short for RTP header''), pkt0)"
  using decoders_agree [of bytes0 pkt0] decoders_agree [of "[1, 2]" pkt0]
  by (simp add: bytes0_def)

section \<open>Properties of the packetizer\<close>

lemma length_create_packets: "length (fst (create_packets st calls)) = length calls"
  by (induction st calls rule: create_packets.induct) (auto simp: Let_def split: prod.splits)

lemma create_packets_seq:
  "n < length calls \<Longrightarrow>
   seq_num (fst (create_packets st calls) ! n) =
     (if n = 0 then seq_num_strm st else (seq_num_strm st + int n) mod 65536)"
proof (induction st calls arbitrary: n rule: create_packets.induct)
  case (1 self)
  then show ?case by simp
next
  case (2 self frame_data is_last_fragment time_90k calls)
  show ?case
  proof (cases n)
    case 0
    then show ?thesis by (simp add: Let_def create_packet_def split: prod.splits)
  next
    case (Suc m)
    obtain packet self1 where cp: "create_packet self frame_data is_last_fragment time_90k = (packet, self1)"
      by (cases "create_packet self frame_data is_last_fragment time_90k")
    obtain packets self2 where cps: "create_packets self1 calls = (packets, self2)"
      by (cases "create_packets self1 calls")
    have m: "m < length calls" using "2.prems" Suc by simp
    have s1: "seq_num_strm self1 = (seq_num_strm self + 1) mod 65536"
      using cp by (auto simp: create_packet_def Let_def)
    have "seq_num (fst (create_packets self1 calls) ! m) =
            (if m = 0 then seq_num_strm self1 else (seq_num_strm self1 + int m) mod 65536)"
      using "2.IH" [OF cp [symmetric] refl m] .
    then have "seq_num (packets ! m) = (seq_num_strm self + 1 + int m) mod 65536"
      by (simp add: cps s1 mod_add_left_eq)
    then show ?thesis by (simp add: Suc cp cps ac_simps)
  qed
qed

text \<open>
  C5. A packetizer starts at sequence number 0; the \<open>n\<close>-th packet it creates (counting
  from 0) carries \<open>n mod 65536\<close>, and each packet carries the number of the one before it
  plus 1 modulo 65536, so that 65535 is followed by 0.
\<close>

theorem sequence_numbers:
  "\<forall>n < length calls.
     seq_num (fst (create_packets (RTPVideoStream_init ssrc_arg t1 t2) calls) ! n) = int n mod 65536 \<and>
     (Suc n < length calls \<longrightarrow>
        seq_num (fst (create_packets (RTPVideoStream_init ssrc_arg t1 t2) calls) ! Suc n) =
        (seq_num (fst (create_packets (RTPVideoStream_init ssrc_arg t1 t2) calls) ! n) + 1) mod 65536)"
proof (intro allI impI conjI)
  fix n assume n: "n < length calls"
  show "seq_num (fst (create_packets (RTPVideoStream_init ssrc_arg t1 t2) calls) ! n) = int n mod 65536"
    using create_packets_seq [OF n, of "RTPVideoStream_init ssrc_arg t1 t2"]
    by (simp add: RTPVideoStream_init_def)
next
  fix n assume n: "n < length calls" and sn: "Suc n < length calls"
  have a: "seq_num (fst (create_packets (RTPVideoStream_init ssrc_arg t1 t2) calls) ! n) = int n mod 65536"
    using create_packets_seq [OF n, of "RTPVideoStream_init ssrc_arg t1 t2"]
    by (simp add: RTPVideoStream_init_def)
  have b: "seq_num (fst (create_packets (RTPVideoStream_init ssrc_arg t1 t2) calls) ! Suc n) = int (Suc n) mod 65536"
    using create_packets_seq [OF sn, of "RTPVideoStream_init ssrc_arg t1 t2"]
    by (simp add: RTPVideoStream_init_def)
  show "seq_num (fst (create_packets (RTPVideoStream_init ssrc_arg t1 t2) calls) ! Suc n) =
        (seq_num (fst (create_packets (RTPVideoStream_init ssrc_arg t1 t2) calls) ! n) + 1) mod 65536"
    unfolding a b by (simp add: mod_simps ac_simps)
qed

theorem sequence_numbers_witness:
  "(1::nat) < length calls0 \<and> Suc 1 < length calls0 \<and>
   seq_num (fst (create_packets (RTPVideoStream_init None 1000 90000000) calls0) ! 1) = 1 \<and>
   seq_num (fst (create_packets (RTPVideoStream_init None 1000 90000000) calls0) ! Suc 1) = 2"
  using sequence_numbers [rule_format, of 1 calls0 None 1000 90000000]
  by (simp add: calls0_def)

lemma create_packet_wraps:
  "create_packet \<lparr>ssrc_strm = 7, seq_num_strm = 65535, timestamp_base = 0\<rparr> [1] True 5 =
     (\<lparr>version = 2, padding = 0, extension = 0, cc = 0, marker = 1, pt = 26,
       seq_num = 65535, timestamp = 5, ssrc = 7, payload = [1]\<rparr>,
      \<lparr>ssrc_strm = 7, seq_num_strm = 0, timestamp_base = 0\<rparr>)"
  by (simp add: create_packet_def)

section \<open>Properties of the server\<close>

lemma str_int_codes: "str_int OK = ''200''" "str_int FILE_NOT_FOUND = ''404''" "str_int CON_ERR = ''500''"
  by code_simp+

lemma generate_response_CON_ERR:
  "generate_response CON_ERR c =
     Inr (''RTSP/1.0 500 Internal Server Error'' @ CRLF @ ''CSeq: '' @ str_int c @ CRLF @ CRLF)"
  by (simp add: generate_response_def status_text_def str_int_codes RTSP_VER_def)
     (simp add: CON_ERR_def OK_def FILE_NOT_FOUND_def)

lemma generate_response_FILE_NOT_FOUND:
  "generate_response FILE_NOT_FOUND c =
     Inr (''RTSP/1.0 404 Not Found'' @ CRLF @ ''CSeq: '' @ str_int c @ CRLF @ CRLF)"
  by (simp add: generate_response_def status_text_def str_int_codes RTSP_VER_def)
     (simp add: CON_ERR_def OK_def FILE_NOT_FOUND_def)

lemma str_int_small: "str_int 0 = ''0''" "str_int 1 = ''1''" "str_int 3 = ''3''" "str_int 5 = ''5''"
  by code_simp+

lemma session_response_text:
  "session_response c sid =
     ''RTSP/1.0 200 OK'' @ CRLF @ ''CSeq: '' @ str_int c @ CRLF @
     ''Session: '' @ str_opt sid @ CRLF @ CRLF"
  by (simp add: session_response_def str_int_codes RTSP_VER_def)

lemma cleanup_keeps:
  "state (snd (cleanup e s)) = INIT"
  "seq_num_sess (snd (cleanup e s)) = seq_num_sess s"
  "session_id (snd (cleanup e s)) = session_id s"
  by (auto simp: cleanup_def Let_def split: option.splits prod.splits)

lemma cleanup_no_video:
  "video_stream s = None \<or> video_closes e \<Longrightarrow> fst (cleanup e s) = None"
  by (auto simp: cleanup_def Let_def split: option.splits prod.splits)

lemma handle_teardown_keeps:
  "state (snd (handle_teardown e s)) = INIT"
  "seq_num_sess (snd (handle_teardown e s)) = seq_num_sess s"
  "session_id (snd (handle_teardown e s)) = session_id s"
proof -
  obtain r s2 where c: "cleanup e (s\<lparr>state := INIT\<rparr>) = (r, s2)"
    by (cases "cleanup e (s\<lparr>state := INIT\<rparr>)")
  have k: "state s2 = INIT" "seq_num_sess s2 = seq_num_sess s" "session_id s2 = session_id s"
    using cleanup_keeps [of e "s\<lparr>state := INIT\<rparr>"] by (simp_all add: c)
  show "state (snd (handle_teardown e s)) = INIT"
    "seq_num_sess (snd (handle_teardown e s)) = seq_num_sess s"
    "session_id (snd (handle_teardown e s)) = session_id s"
    using k by (simp_all add: handle_teardown_def Let_def c split: option.splits)
qed


lemma handle_teardown_ok:
  assumes "video_stream s = None \<or> video_closes e"
  shows "fst (handle_teardown e s) = Inr (session_response (seq_num_sess s) (session_id s))"
proof -
  obtain r s2 where c: "cleanup e (s\<lparr>state := INIT\<rparr>) = (r, s2)"
    by (cases "cleanup e (s\<lparr>state := INIT\<rparr>)")
  have k: "seq_num_sess s2 = seq_num_sess s" "session_id s2 = session_id s"
    using cleanup_keeps [of e "s\<lparr>state := INIT\<rparr>"] by (simp_all add: c)
  have "r = None" using cleanup_no_video [of "s\<lparr>state := INIT\<rparr>" e] assms by (simp add: c)
  then show ?thesis using k by (simp add: handle_teardown_def Let_def c)
qed

lemma handle_play_keeps:
  "seq_num_sess (snd (handle_play e s)) = seq_num_sess s"
  "session_id (snd (handle_play e s)) = session_id s"
  by (simp_all add: handle_play_def Let_def)


lemma handle_setup_keeps: "seq_num_sess (snd (handle_setup e url lines s)) = seq_num_sess s"
  by (simp add: handle_setup_def Let_def split: option.splits sum.splits)


lemma split_from_nonempty: "split_from sep cur s \<noteq> []"
  by (induction sep cur s rule: split_from.induct) auto

lemma str_exceeds_small: "\<bar>i\<bar> < 100000 \<Longrightarrow> \<not> str_exceeds i"
proof -
  assume a: "\<bar>i\<bar> < 100000"
  have "(10::int) ^ 5 \<le> 10 ^ default_max_str_digits"
    by (rule power_increasing) (simp_all add: default_max_str_digits_def)
  then show ?thesis using a by (simp add: str_exceeds_def)
qed

lemma handle_setup_early_failure:
  assumes "find_video e url = None \<or> (\<exists>err. client_port_of lines = Inl err) \<or>
    (\<exists>path. find_video e url = Some path \<and> \<not> video_opens e path)"
  shows "snd (handle_setup e url lines s) = s"
    and "fst (handle_setup e url lines s) = generate_response FILE_NOT_FOUND (seq_num_sess s) \<or>
         fst (handle_setup e url lines s) = generate_response CON_ERR (seq_num_sess s)"
  using assms by (auto simp: handle_setup_def Let_def split: option.splits sum.splits)

lemma handle_setup_late_failure:
  assumes "find_video e url = Some path" "client_port_of lines = Inr p" "video_opens e path"
    "\<not> socket_opens e \<or> str_exceeds (p + 1)"
  shows "fst (handle_setup e url lines s) = generate_response CON_ERR (seq_num_sess s)"
    and "state (snd (handle_setup e url lines s)) = state s"
    and "session_id (snd (handle_setup e url lines s)) = Some (time_session e)"
  using assms by (auto simp: handle_setup_def Let_def)

lemma handle_setup_success:
  assumes "find_video e url = Some path" "client_port_of lines = Inr p"
    "video_opens e path" "socket_opens e" "\<not> str_exceeds (p + 1)"
  shows "handle_setup e url lines s =
           (Inr (setup_response (seq_num_sess s) p 25000 (Some (time_session e))),
            s\<lparr>video_stream := Some (path, Open),
              rtp_stream := Some (RTPVideoStream_init None (time_ssrc e) (time_base e)),
              client_rtp_port := Some p, server_rtp_port := Some 25000,
              session_id := Some (time_session e), rtp_socket := Some Open, state := READY\<rparr>)"
  using assms by (simp add: handle_setup_def Let_def)




lemma parse_short:
  "length (split_ws (hd (split_sep (strip req) LF))) < 3 \<Longrightarrow>
   parse_rtsp_request e req s = (generate_response CON_ERR (seq_num_sess s), s)"
  by (simp add: parse_rtsp_request_def Let_def)

lemma parse_dispatch:
  assumes "3 \<le> length (split_ws (hd (split_sep (strip req) LF)))"
    and "cseq_of (tl (split_sep (strip req) LF)) = Inr c"
  shows "parse_rtsp_request e req s =
     (let request_line = split_ws (hd (split_sep (strip req) LF));
          s1 = s\<lparr>seq_num_sess := c\<rparr>
      in if request_line ! 0 = ''SETUP''
         then handle_setup e (request_line ! 1) (split_sep (strip req) LF) s1
         else if request_line ! 0 = ''PLAY'' then handle_play e s1
         else if request_line ! 0 = ''PAUSE'' then handle_pause s1
         else if request_line ! 0 = ''TEARDOWN'' then handle_teardown e s1
         else (generate_response CON_ERR c, s1))"
  using assms by (simp add: parse_rtsp_request_def Let_def split_sep_def split_from_nonempty)

lemma parse_stores_cseq:
  assumes "3 \<le> length (split_ws (hd (split_sep (strip req) LF)))"
    and "cseq_of (tl (split_sep (strip req) LF)) = Inr c"
  shows "seq_num_sess (snd (parse_rtsp_request e req s)) = c"
  by (simp add: parse_dispatch [OF assms] Let_def handle_setup_keeps handle_play_keeps
      handle_teardown_keeps handle_pause_def)

lemma parse_cseq_raises:
  "cseq_of (tl (split_sep (strip req) LF)) = Inl err \<Longrightarrow>
   snd (parse_rtsp_request e req s) = s \<and>
   (3 \<le> length (split_ws (hd (split_sep (strip req) LF))) \<longrightarrow>
      parse_rtsp_request e req s = (Inl err, s))"
  by (simp add: parse_rtsp_request_def Let_def split_sep_def split_from_nonempty)


subsection \<open>Requests in state INIT\<close>

text \<open>
  C3 as stated fails for PAUSE and TEARDOWN: on a fresh session PAUSE is answered with 200
  and moves the session to READY, and TEARDOWN is answered with 200.
\<close>

theorem pause_teardown_in_init_accepted:
  "handle_pause ClientSession_init =
     (Inr (''RTSP/1.0 200 OK'' @ CRLF @ ''CSeq: 0'' @ CRLF @ ''Session: None'' @ CRLF @ CRLF),
      ClientSession_init\<lparr>state := READY\<rparr>) \<and>
   handle_teardown env0 ClientSession_init =
     (Inr (''RTSP/1.0 200 OK'' @ CRLF @ ''CSeq: 0'' @ CRLF @ ''Session: None'' @ CRLF @ CRLF),
      ClientSession_init)"
  by code_simp

text \<open>
  C3, amended. For a session in state INIT: PLAY is answered with the 500 response and
  leaves the session as it is; PAUSE is answered with 200 and sets the state to READY;
  TEARDOWN leaves the state INIT and is answered with 200 (when the session holds no video
  stream, or closing it does not raise).
\<close>

theorem init_transitions:
  "state s = INIT \<Longrightarrow>
     handle_play e s =
       (Inr (''RTSP/1.0 500 Internal Server Error'' @ CRLF @
             ''CSeq: '' @ str_int (seq_num_sess s) @ CRLF @ CRLF), s) \<and>
     handle_pause s =
       (Inr (''RTSP/1.0 200 OK'' @ CRLF @ ''CSeq: '' @ str_int (seq_num_sess s) @ CRLF @
             ''Session: '' @ str_opt (session_id s) @ CRLF @ CRLF), s\<lparr>state := READY\<rparr>) \<and>
     state (snd (handle_teardown e s)) = INIT \<and>
     (video_stream s = None \<or> video_closes e \<longrightarrow>
        fst (handle_teardown e s) =
          Inr (''RTSP/1.0 200 OK'' @ CRLF @ ''CSeq: '' @ str_int (seq_num_sess s) @ CRLF @
               ''Session: '' @ str_opt (session_id s) @ CRLF @ CRLF))"
proof (intro conjI impI)
  assume i: "state s = INIT"
  show "handle_play e s =
       (Inr (''RTSP/1.0 500 Internal Server Error'' @ CRLF @
             ''CSeq: '' @ str_int (seq_num_sess s) @ CRLF @ CRLF), s)"
    using i by (simp add: handle_play_def generate_response_CON_ERR)
  show "handle_pause s =
       (Inr (''RTSP/1.0 200 OK'' @ CRLF @ ''CSeq: '' @ str_int (seq_num_sess s) @ CRLF @
             ''Session: '' @ str_opt (session_id s) @ CRLF @ CRLF), s\<lparr>state := READY\<rparr>)"
    by (simp add: handle_pause_def Let_def session_response_text)
  show "state (snd (handle_teardown e s)) = INIT"
    by (rule handle_teardown_keeps)
next
  assume "video_stream s = None \<or> video_closes e"
  then show "fst (handle_teardown e s) =
          Inr (''RTSP/1.0 200 OK'' @ CRLF @ ''CSeq: '' @ str_int (seq_num_sess s) @ CRLF @
               ''Session: '' @ str_opt (session_id s) @ CRLF @ CRLF)"
    by (simp add: handle_teardown_ok session_response_text)
qed

theorem init_transitions_witness:
  "state ClientSession_init = INIT \<and> video_stream ClientSession_init = None \<and>
   handle_play env0 ClientSession_init =
     (Inr (''RTSP/1.0 500 Internal Server Error'' @ CRLF @ ''CSeq: 0'' @ CRLF @ CRLF),
      ClientSession_init) \<and>
   state (snd (handle_pause ClientSession_init)) = READY \<and>
   state (snd (handle_teardown env0 ClientSession_init)) = INIT \<and>
   fst (handle_teardown env0 ClientSession_init) =
     Inr (''RTSP/1.0 200 OK'' @ CRLF @ ''CSeq: 0'' @ CRLF @ ''Session: None'' @ CRLF @ CRLF)"
proof -
  have i: "state ClientSession_init = INIT" by (simp add: ClientSession_init_def)
  have v: "video_stream ClientSession_init = None" by (simp add: ClientSession_init_def)
  have z: "str_int (seq_num_sess ClientSession_init) = ''0''" by code_simp
  have n: "str_opt (session_id ClientSession_init) = ''None''" by code_simp
  from init_transitions [OF i, of env0] v i show ?thesis by (simp add: z n)
qed

subsection \<open>The session token\<close>

text \<open>
  C4 as stated fails: a second successful SETUP assigns the token again. With the clock at
  1000 and then at 2000, the token is 1000 after the first SETUP and 2000 after the second.
\<close>

theorem second_setup_changes_token:
  "parse_rtsp_request env0 r_setup1 ClientSession_init =
     (Inr (setup_response 1 25000 25000 (Some 1000)), s_ready) \<and>
   session_id s_ready = Some 1000 \<and>
   session_id (snd (parse_rtsp_request env1 r_setup2 s_ready)) = Some 2000"
proof -
  have e0: "video_opens env0 ''videos/movie.mjpeg''" "socket_opens env0"
    "time_session env0 = 1000" "time_ssrc env0 = 1000" "time_base env0 = 90000000"
    by (simp_all add: env0_def)
  have e1: "video_opens env1 ''videos/movie.mjpeg''" "socket_opens env1"
    "time_session env1 = 2000"
    by (simp_all add: env1_def env0_def)
  have k: "\<not> str_exceeds (25000 + 1)" by (rule str_exceeds_small) simp
  have f0: "find_video env0 url0 = Some ''videos/movie.mjpeg''" by code_simp
  have f1: "find_video env1 url0 = Some ''videos/movie.mjpeg''" by code_simp
  have a1: "split_ws (hd (split_sep (strip r_setup1) LF)) = [''SETUP'', url0, ''RTSP/1.0'']"
    unfolding r_setup1_def by code_simp
  have b1: "cseq_of (tl (split_sep (strip r_setup1) LF)) = Inr 1"
    unfolding r_setup1_def by code_simp
  have c1: "client_port_of (split_sep (strip r_setup1) LF) = Inr 25000"
    unfolding r_setup1_def by code_simp
  have a2: "split_ws (hd (split_sep (strip r_setup2) LF)) = [''SETUP'', url0, ''RTSP/1.0'']"
    unfolding r_setup2_def by code_simp
  have b2: "cseq_of (tl (split_sep (strip r_setup2) LF)) = Inr 2"
    unfolding r_setup2_def by code_simp
  have c2: "client_port_of (split_sep (strip r_setup2) LF) = Inr 25000"
    unfolding r_setup2_def by code_simp
  have l1: "3 \<le> length (split_ws (hd (split_sep (strip r_setup1) LF)))" by (simp add: a1)
  have l2: "3 \<le> length (split_ws (hd (split_sep (strip r_setup2) LF)))" by (simp add: a2)
  have p1: "parse_rtsp_request env0 r_setup1 ClientSession_init =
     (Inr (setup_response 1 25000 25000 (Some 1000)), s_ready)"
    by (simp add: parse_dispatch [OF l1 b1] a1 Let_def handle_setup_success [OF f0 c1 e0(1,2) k]
        e0 s_ready_def)
  have p2: "session_id (snd (parse_rtsp_request env1 r_setup2 s_ready)) = Some 2000"
    by (simp add: parse_dispatch [OF l2 b2] a2 Let_def handle_setup_success [OF f1 c2 e1(1,2) k] e1)
  have "session_id s_ready = Some 1000" by (simp add: s_ready_def)
  with p1 p2 show ?thesis by simp
qed

text \<open>
  C4, amended. A fresh session has no token. PLAY, PAUSE and TEARDOWN, every request whose
  method is not SETUP, every request with a malformed first line and every request whose
  CSeq conversion raises leave the token as it is. A SETUP request with CSeq \<open>c\<close> is handled
  by \<^verbatim>\<open>handle_setup\<close> on the session that stores \<open>c\<close>. When it fails before the video stream
  is created (the resource is not found, the port conversion raises, or the stream cannot
  be opened), it is answered with 404 or 500 and the session, token included, is left as it
  is. In every other case it assigns the token anew, to the clock value read during that
  SETUP: when it succeeds (200, state READY), be it the first SETUP or a later one, and also
  when it is answered with 500 and leaves the state as it is, because the RTP socket cannot
  be created or because \<open>p + 1\<close>, the port after the client port \<open>p\<close>, has more than 4300
  digits and cannot be rendered.
\<close>

theorem session_token_assignment:
  "session_id ClientSession_init = None \<and>
   session_id (snd (handle_play e s)) = session_id s \<and>
   session_id (snd (handle_pause s)) = session_id s \<and>
   session_id (snd (handle_teardown e s)) = session_id s \<and>
   (length (split_ws (hd (split_sep (strip req) LF))) < 3 \<or>
    split_ws (hd (split_sep (strip req) LF)) ! 0 \<noteq> ''SETUP'' \<longrightarrow>
      session_id (snd (parse_rtsp_request e req s)) = session_id s) \<and>
   (\<forall>err. cseq_of (tl (split_sep (strip req) LF)) = Inl err \<longrightarrow>
      session_id (snd (parse_rtsp_request e req s)) = session_id s) \<and>
   (3 \<le> length (split_ws (hd (split_sep (strip req) LF))) \<and>
    split_ws (hd (split_sep (strip req) LF)) ! 0 = ''SETUP'' \<and>
    cseq_of (tl (split_sep (strip req) LF)) = Inr c \<longrightarrow>
      parse_rtsp_request e req s =
        handle_setup e (split_ws (hd (split_sep (strip req) LF)) ! 1)
          (split_sep (strip req) LF) (s\<lparr>seq_num_sess := c\<rparr>)) \<and>
   (find_video e url = None \<or> (\<exists>err. client_port_of lines = Inl err) \<or>
    (\<exists>q. find_video e url = Some q \<and> \<not> video_opens e q) \<longrightarrow>
      snd (handle_setup e url lines s) = s \<and>
      (fst (handle_setup e url lines s) =
         Inr (''RTSP/1.0 404 Not Found'' @ CRLF @
              ''CSeq: '' @ str_int (seq_num_sess s) @ CRLF @ CRLF) \<or>
       fst (handle_setup e url lines s) =
         Inr (''RTSP/1.0 500 Internal Server Error'' @ CRLF @
              ''CSeq: '' @ str_int (seq_num_sess s) @ CRLF @ CRLF))) \<and>
   (find_video e url = Some path \<and> client_port_of lines = Inr p \<and> video_opens e path \<longrightarrow>
      session_id (snd (handle_setup e url lines s)) = Some (time_session e)) \<and>
   (find_video e url = Some path \<and> client_port_of lines = Inr p \<and> video_opens e path \<and>
    (\<not> socket_opens e \<or> str_exceeds (p + 1)) \<longrightarrow>
      fst (handle_setup e url lines s) =
        Inr (''RTSP/1.0 500 Internal Server Error'' @ CRLF @
             ''CSeq: '' @ str_int (seq_num_sess s) @ CRLF @ CRLF) \<and>
      state (snd (handle_setup e url lines s)) = state s) \<and>
   (find_video e url = Some path \<and> client_port_of lines = Inr p \<and> video_opens e path \<and>
    socket_opens e \<and> \<not> str_exceeds (p + 1) \<longrightarrow>
      fst (handle_setup e url lines s) =
        Inr (setup_response (seq_num_sess s) p 25000 (Some (time_session e))) \<and>
      state (snd (handle_setup e url lines s)) = READY)"
proof (intro conjI impI allI)
  show "session_id ClientSession_init = None" by (simp add: ClientSession_init_def)
  show "session_id (snd (handle_play e s)) = session_id s" by (rule handle_play_keeps)
  show "session_id (snd (handle_pause s)) = session_id s" by (simp add: handle_pause_def)
  show "session_id (snd (handle_teardown e s)) = session_id s" by (rule handle_teardown_keeps)
next
  assume a: "length (split_ws (hd (split_sep (strip req) LF))) < 3 \<or>
    split_ws (hd (split_sep (strip req) LF)) ! 0 \<noteq> ''SETUP''"
  show "session_id (snd (parse_rtsp_request e req s)) = session_id s"
  proof (cases "length (split_ws (hd (split_sep (strip req) LF))) < 3")
    case True
    then show ?thesis by (simp add: parse_short)
  next
    case False
    then have m: "split_ws (hd (split_sep (strip req) LF)) ! 0 \<noteq> ''SETUP''" using a by blast
    show ?thesis
    proof (cases "cseq_of (tl (split_sep (strip req) LF))")
      case (Inl err)
      then show ?thesis by (simp add: parse_cseq_raises)
    next
      case (Inr c)
      have l: "3 \<le> length (split_ws (hd (split_sep (strip req) LF)))" using False by simp
      show ?thesis using m
        by (simp add: parse_dispatch [OF l Inr] Let_def handle_play_keeps handle_teardown_keeps
            handle_pause_def)
    qed
  qed
next
  fix err assume "cseq_of (tl (split_sep (strip req) LF)) = Inl err"
  then show "session_id (snd (parse_rtsp_request e req s)) = session_id s"
    by (simp add: parse_cseq_raises)
next
  assume "3 \<le> length (split_ws (hd (split_sep (strip req) LF))) \<and>
    split_ws (hd (split_sep (strip req) LF)) ! 0 = ''SETUP'' \<and>
    cseq_of (tl (split_sep (strip req) LF)) = Inr c"
  then have h: "3 \<le> length (split_ws (hd (split_sep (strip req) LF)))"
    "cseq_of (tl (split_sep (strip req) LF)) = Inr c"
    "split_ws (hd (split_sep (strip req) LF)) ! 0 = ''SETUP''" by simp_all
  show "parse_rtsp_request e req s =
        handle_setup e (split_ws (hd (split_sep (strip req) LF)) ! 1)
          (split_sep (strip req) LF) (s\<lparr>seq_num_sess := c\<rparr>)"
    by (simp add: parse_dispatch [OF h(1,2)] Let_def h(3))
next
  assume a: "find_video e url = None \<or> (\<exists>err. client_port_of lines = Inl err) \<or>
    (\<exists>q. find_video e url = Some q \<and> \<not> video_opens e q)"
  show "snd (handle_setup e url lines s) = s" using a by (rule handle_setup_early_failure(1))
  show "fst (handle_setup e url lines s) =
         Inr (''RTSP/1.0 404 Not Found'' @ CRLF @
              ''CSeq: '' @ str_int (seq_num_sess s) @ CRLF @ CRLF) \<or>
       fst (handle_setup e url lines s) =
         Inr (''RTSP/1.0 500 Internal Server Error'' @ CRLF @
              ''CSeq: '' @ str_int (seq_num_sess s) @ CRLF @ CRLF)"
    using handle_setup_early_failure(2) [OF a, of s]
    unfolding generate_response_CON_ERR generate_response_FILE_NOT_FOUND .
next
  assume "find_video e url = Some path \<and> client_port_of lines = Inr p \<and> video_opens e path"
  then have h: "find_video e url = Some path" "client_port_of lines = Inr p"
    "video_opens e path" by simp_all
  show "session_id (snd (handle_setup e url lines s)) = Some (time_session e)"
  proof (cases "socket_opens e \<and> \<not> str_exceeds (p + 1)")
    case True
    then have k: "socket_opens e" "\<not> str_exceeds (p + 1)" by simp_all
    show ?thesis by (simp add: handle_setup_success [OF h k])
  next
    case False
    then have k: "\<not> socket_opens e \<or> str_exceeds (p + 1)" by blast
    show ?thesis by (rule handle_setup_late_failure(3) [OF h k])
  qed
next
  assume "find_video e url = Some path \<and> client_port_of lines = Inr p \<and> video_opens e path \<and>
    (\<not> socket_opens e \<or> str_exceeds (p + 1))"
  then have h: "find_video e url = Some path" "client_port_of lines = Inr p"
    "video_opens e path" "\<not> socket_opens e \<or> str_exceeds (p + 1)" by simp_all
  show "fst (handle_setup e url lines s) =
        Inr (''RTSP/1.0 500 Internal Server Error'' @ CRLF @
             ''CSeq: '' @ str_int (seq_num_sess s) @ CRLF @ CRLF)"
    using handle_setup_late_failure(1) [OF h, of s] unfolding generate_response_CON_ERR .
  show "state (snd (handle_setup e url lines s)) = state s"
    by (rule handle_setup_late_failure(2) [OF h])
next
  assume "find_video e url = Some path \<and> client_port_of lines = Inr p \<and> video_opens e path \<and>
    socket_opens e \<and> \<not> str_exceeds (p + 1)"
  then have h: "find_video e url = Some path" "client_port_of lines = Inr p"
    "video_opens e path" "socket_opens e" "\<not> str_exceeds (p + 1)" by simp_all
  show "fst (handle_setup e url lines s) =
        Inr (setup_response (seq_num_sess s) p 25000 (Some (time_session e)))"
    "state (snd (handle_setup e url lines s)) = READY"
    by (simp_all add: handle_setup_success [OF h])
qed

theorem session_token_assignment_witness:
  "length (split_ws (hd (split_sep (strip ''HELLO'') LF))) < 3 \<and>
   session_id (snd (parse_rtsp_request env1 ''HELLO'' s_ready)) = Some 1000 \<and>
   cseq_of (tl (split_sep (strip r_cseq_x) LF)) =
     Inl (ValueError ''invalid literal for int() with base 10'') \<and>
   session_id (snd (parse_rtsp_request env1 r_cseq_x s_ready)) = Some 1000 \<and>
   split_ws (hd (split_sep (strip r_setup2) LF)) = [''SETUP'', url0, ''RTSP/1.0''] \<and>
   cseq_of (tl (split_sep (strip r_setup2) LF)) = Inr 2 \<and>
   parse_rtsp_request env1 r_setup2 s_ready =
     handle_setup env1 url0 (split_sep (strip r_setup2) LF) (s_ready\<lparr>seq_num_sess := 2\<rparr>) \<and>
   find_video env1 url0 = Some ''videos/movie.mjpeg'' \<and>
   client_port_of [''CSeq: 2''] = Inr 25000 \<and>
   video_opens env1 ''videos/movie.mjpeg'' \<and> socket_opens env1 \<and>
   session_id (snd (handle_setup env1 url0 [''CSeq: 2''] s_ready)) = Some 2000 \<and>
   state (snd (handle_setup env1 url0 [''CSeq: 2''] ClientSession_init)) = READY \<and>
   find_video env2 url0 = Some ''videos/movie.mjpeg'' \<and>
   video_opens env2 ''videos/movie.mjpeg'' \<and> socket_opens env2 = False \<and>
   session_id (snd (handle_setup env2 url0 [''CSeq: 2''] ClientSession_init)) = Some 2000 \<and>
   state (snd (handle_setup env2 url0 [''CSeq: 2''] ClientSession_init)) = INIT \<and>
   fst (handle_setup env2 url0 [''CSeq: 2''] ClientSession_init) =
     Inr (''RTSP/1.0 500 Internal Server Error'' @ CRLF @ ''CSeq: 0'' @ CRLF @ CRLF) \<and>
   find_video env1 ''none.mjpeg'' = None \<and>
   snd (handle_setup env1 ''none.mjpeg'' [''CSeq: 2''] s_ready) = s_ready"
proof -
  have h: "length (split_ws (hd (split_sep (strip ''HELLO'') LF))) < 3" by code_simp
  have x: "cseq_of (tl (split_sep (strip r_cseq_x) LF)) =
     Inl (ValueError ''invalid literal for int() with base 10'')"
    unfolding r_cseq_x_def by code_simp
  have a2: "split_ws (hd (split_sep (strip r_setup2) LF)) = [''SETUP'', url0, ''RTSP/1.0'']"
    unfolding r_setup2_def by code_simp
  have b2: "cseq_of (tl (split_sep (strip r_setup2) LF)) = Inr 2"
    unfolding r_setup2_def by code_simp
  have f1: "find_video env1 url0 = Some ''videos/movie.mjpeg''" by code_simp
  have f2: "find_video env2 url0 = Some ''videos/movie.mjpeg''" by code_simp
  have f3: "find_video env1 ''none.mjpeg'' = None" by code_simp
  have c: "client_port_of [''CSeq: 2''] = Inr 25000" by code_simp
  have k: "\<not> str_exceeds (25000 + 1)" by (rule str_exceeds_small) simp
  have e1: "video_opens env1 ''videos/movie.mjpeg''" "socket_opens env1"
    "time_session env1 = 2000"
    by (simp_all add: env1_def env0_def)
  have e2: "video_opens env2 ''videos/movie.mjpeg''" "\<not> socket_opens env2"
    "time_session env2 = 2000"
    by (simp_all add: env2_def env1_def env0_def)
  have i: "session_id s_ready = Some 1000" by (simp add: s_ready_def)
  have j: "state ClientSession_init = INIT" "str_int (seq_num_sess ClientSession_init) = ''0''"
    by (simp_all add: ClientSession_init_def str_int_small)
  have w1: "session_id (snd (parse_rtsp_request env1 ''HELLO'' s_ready)) = Some 1000"
    using session_token_assignment [where e = env1 and s = s_ready and req = "''HELLO''"] h i
    by simp
  have w2: "session_id (snd (parse_rtsp_request env1 r_cseq_x s_ready)) = Some 1000"
    using session_token_assignment [where e = env1 and s = s_ready and req = r_cseq_x] x i
    by simp
  have w3: "parse_rtsp_request env1 r_setup2 s_ready =
     handle_setup env1 url0 (split_sep (strip r_setup2) LF) (s_ready\<lparr>seq_num_sess := 2\<rparr>)"
    using session_token_assignment [where e = env1 and s = s_ready and req = r_setup2 and c = 2]
      a2 b2
    by simp
  have w4: "session_id (snd (handle_setup env1 url0 [''CSeq: 2''] s_ready)) = Some 2000"
    using session_token_assignment [where e = env1 and s = s_ready and url = url0
        and lines = "[''CSeq: 2'']" and path = "''videos/movie.mjpeg''" and p = 25000]
      f1 c e1
    by simp
  have w5: "state (snd (handle_setup env1 url0 [''CSeq: 2''] ClientSession_init)) = READY"
    using session_token_assignment [where e = env1 and s = ClientSession_init and url = url0
        and lines = "[''CSeq: 2'']" and path = "''videos/movie.mjpeg''" and p = 25000]
      f1 c e1 k
    by simp
  have w6: "session_id (snd (handle_setup env2 url0 [''CSeq: 2''] ClientSession_init)) = Some 2000 \<and>
    state (snd (handle_setup env2 url0 [''CSeq: 2''] ClientSession_init)) = INIT \<and>
    fst (handle_setup env2 url0 [''CSeq: 2''] ClientSession_init) =
      Inr (''RTSP/1.0 500 Internal Server Error'' @ CRLF @ ''CSeq: 0'' @ CRLF @ CRLF)"
    using session_token_assignment [where e = env2 and s = ClientSession_init and url = url0
        and lines = "[''CSeq: 2'']" and path = "''videos/movie.mjpeg''" and p = 25000]
      f2 c e2 j
    by simp
  have w7: "snd (handle_setup env1 ''none.mjpeg'' [''CSeq: 2''] s_ready) = s_ready"
    using session_token_assignment [where e = env1 and s = s_ready and url = "''none.mjpeg''"
        and lines = "[''CSeq: 2'']"]
      f3
    by simp
  from h x a2 b2 f1 f2 f3 c e1 e2 w1 w2 w3 w4 w5 w6 w7 show ?thesis by simp
qed

subsection \<open>What a response carries\<close>





subsection \<open>A malformed first line\<close>

text \<open>
  C7 as stated fails: after a PLAY request with CSeq 5 (rejected with 500, the session being
  in state INIT), a request consisting of the single token HELLO is answered with the
  sequence id 5, not 0.
\<close>

theorem malformed_after_cseq_5:
  "fst (parse_rtsp_request env0 ''HELLO''
          (snd (parse_rtsp_request env0 r_play5 ClientSession_init))) =
     Inr (''RTSP/1.0 500 Internal Server Error'' @ CRLF @ ''CSeq: 5'' @ CRLF @ CRLF)"
proof -
  have a: "3 \<le> length (split_ws (hd (split_sep (strip r_play5) LF)))"
    unfolding r_play5_def by code_simp
  have b: "cseq_of (tl (split_sep (strip r_play5) LF)) = Inr 5"
    unfolding r_play5_def by code_simp
  have s: "seq_num_sess (snd (parse_rtsp_request env0 r_play5 ClientSession_init)) = 5"
    using a b by (rule parse_stores_cseq)
  have h: "length (split_ws (hd (split_sep (strip ''HELLO'') LF))) < 3" by code_simp
  show ?thesis
    by (simp add: parse_short [OF h] generate_response_CON_ERR s str_int_small)
qed

text \<open>
  C7, amended. A control message whose first line has fewer than three tokens is answered
  with the 500 response whose sequence id is the one stored in the session, and the session
  is left as it is. The stored sequence id is 0 in a fresh session; after a request with
  at least three tokens on its first line and CSeq \<open>c\<close> it is \<open>c\<close>.
\<close>

theorem malformed_first_line:
  "(length (split_ws (hd (split_sep (strip req) LF))) < 3 \<longrightarrow>
      parse_rtsp_request e req s =
        (Inr (''RTSP/1.0 500 Internal Server Error'' @ CRLF @
              ''CSeq: '' @ str_int (seq_num_sess s) @ CRLF @ CRLF), s)) \<and>
   seq_num_sess ClientSession_init = 0 \<and>
   (3 \<le> length (split_ws (hd (split_sep (strip req) LF))) \<and>
    cseq_of (tl (split_sep (strip req) LF)) = Inr c \<longrightarrow>
      seq_num_sess (snd (parse_rtsp_request e req s)) = c)"
  by (simp add: parse_short generate_response_CON_ERR parse_stores_cseq ClientSession_init_def)

theorem malformed_first_line_witness:
  "length (split_ws (hd (split_sep (strip ''HELLO'') LF))) < 3 \<and>
   parse_rtsp_request env0 ''HELLO'' s_ready =
     (Inr (''RTSP/1.0 500 Internal Server Error'' @ CRLF @ ''CSeq: 1'' @ CRLF @ CRLF), s_ready) \<and>
   3 \<le> length (split_ws (hd (split_sep (strip r_play5) LF))) \<and>
   cseq_of (tl (split_sep (strip r_play5) LF)) = Inr 5 \<and>
   seq_num_sess (snd (parse_rtsp_request env0 r_play5 ClientSession_init)) = 5"
proof -
  have h: "length (split_ws (hd (split_sep (strip ''HELLO'') LF))) < 3" by code_simp
  have a: "3 \<le> length (split_ws (hd (split_sep (strip r_play5) LF)))"
    unfolding r_play5_def by code_simp
  have b: "cseq_of (tl (split_sep (strip r_play5) LF)) = Inr 5"
    unfolding r_play5_def by code_simp
  have q: "str_int (seq_num_sess s_ready) = ''1''" by (simp add: s_ready_def str_int_small)
  from malformed_first_line [of "''HELLO''" env0 s_ready 0]
    malformed_first_line [of r_play5 env0 ClientSession_init 5] h a b q
  show ?thesis by simp
qed

subsection \<open>The client port of a SETUP\<close>




end
